theory Spec2Isabelle
  imports Complex_Main
begin

section \<open>The event processor of the behaviour analyzer (handler.py)\<close>

text \<open>
  A shallow embedding of \<^verbatim>\<open>infrastructure/cdk/lambda/processor/handler.py\<close>.

  Conventions of the model.
  \<^item> Python \<^verbatim>\<open>float\<close>, \<^verbatim>\<open>Decimal\<close> and the numbers of a JSON document are real numbers:
    rounding, NaN and the infinities are not modelled. Python \<^verbatim>\<open>int\<close> is \<open>int\<close>.
  \<^item> The body of a request is an object with an optional list of events under
    \<^verbatim>\<open>events\<close>, or a string that decodes to one. An event is a dictionary over the
    keys of the event record of the handler's docstring; a key that is absent is
    \<open>None\<close>, the identifiers are strings and the timestamp is an integer. The
    free-form \<^verbatim>\<open>metadata\<close> is an arbitrary JSON value.
  \<^item> An item of the player-state table is a dictionary over the keys that the handler
    writes, with numbers under the numeric keys.
  \<^item> Events are mutable objects shared between lists. The input list is the heap
    \<open>event list\<close>, and a reference to an event is its position in that list.
  \<^item> Formatted strings whose text depends on a number are kept as a template
    with its arguments (\<open>reason\<close>, \<open>explanation\<close>).
  \<^item> The clock (read once for a request), the UUID source, the JSON codec and the
    failures of the key-value store are fields of the environment \<open>env\<close>, as are the
    thresholds that the module reads from the process environment. A get or a put on
    the player-state table fails or not by its key; the batch writer of the other two
    tables is one put for each item, which fails or not by its position in the batch.
\<close>

subsection \<open>Values\<close>

datatype json =
    JNull
  | JBool bool
  | JNum real
  | JStr string
  | JArr "json list"
  | JObj "(string \<times> json) list"

datatype py_error =
    AttributeError
  | TypeError
  | ZeroDivisionError
  | ClientError

text \<open>A float, or the complex number that \<^verbatim>\<open>x ** 0.5\<close> yields for a negative \<^verbatim>\<open>x\<close>.\<close>

datatype pynum = Fl real | Cplx

datatype reason =
    high_accuracy real
  | high_headshot real
  | high_damage real

record event =
  eventId :: "string option"
  owner :: "string option"
  playerId :: "string option"
  actionType :: "string option"
  timestamp :: "int option"
  sessionId :: "string option"
  metadata :: "json option"
  interesting_reason :: "reason option"

text \<open>
  An item of the player-state table, and equally the \<^verbatim>\<open>features\<close> and
  \<^verbatim>\<open>existing_state\<close> dictionaries of the handler: every key is optional.
\<close>

record item =
  pk :: "string option"
  sk :: "string option"
  item_owner :: "string option"
  item_playerId :: "string option"
  lastSeen :: "int option"
  firstSeen :: "int option"
  eventCount :: "int option"
  riskScore :: "real option"
  status :: "string option"
  updatedAt :: "int option"
  totalShots :: "int option"
  totalHits :: "int option"
  totalHeadshots :: "real option"
  totalKills :: "int option"
  accuracy :: "real option"
  headshotRatio :: "real option"
  accuracySampleCount :: "int option"
  accuracyMean :: "real option"
  accuracyM2 :: "real option"
  accuracyStdDev :: "pynum option"
  risk_score :: "real option"

definition empty_item :: item where
  "empty_item =
     \<lparr>pk = None, sk = None, item_owner = None, item_playerId = None, lastSeen = None,
      firstSeen = None, eventCount = None, riskScore = None, status = None,
      updatedAt = None, totalShots = None, totalHits = None, totalHeadshots = None,
      totalKills = None, accuracy = None, headshotRatio = None,
      accuracySampleCount = None, accuracyMean = None, accuracyM2 = None,
      accuracyStdDev = None, risk_score = None\<rparr>"

datatype detector = ZSCORE_ACCURACY | THRESHOLD_HEADSHOT

datatype explanation =
    zscore_exceeds real real
  | headshot_exceeds real

record detection =
  det_playerId :: string
  detectorType :: detector
  score :: real
  threshold :: real
  det_features :: "(string \<times> real) list"
  explanation :: explanation

text \<open>
  Attribute values of the items written to the events and detections tables; \<open>T\<close> is
  the formatted explanation of a detection.
\<close>

datatype attr = S string | N real | NULL | T explanation

type_synonym row = "(string \<times> attr) list"

datatype store_op =
    GetItem string string
  | PutItem string string
  | BatchPutEvent
  | BatchPutDetection

record store =
  players :: "string \<times> string \<Rightarrow> item option"
  events_table :: "row list"
  detections_table :: "row list"
  oplog :: "store_op list"

datatype rval = RBool bool | RNum real | RStr string | RErr py_error

record response =
  statusCode :: int
  headers :: "(string \<times> string) list"
  body :: "(string \<times> rval) list"

datatype request_body = BodyObject "event list option" | BodyString string

record env =
  ZSCORE_THRESHOLD :: real
  MIN_SAMPLES_FOR_DETECTION :: int
  ACCURACY_INTERESTING_THRESHOLD :: real
  HEADSHOT_INTERESTING_THRESHOLD :: real
  MIN_SHOTS_FOR_INTERESTING :: int
  EVENT_TTL_DAYS :: int
  loads :: "string \<Rightarrow> json option"
  dumps :: "json \<Rightarrow> string"
  loads_body :: "string \<Rightarrow> event list option option"
  str_int :: "int \<Rightarrow> string"
  uuid4 :: "nat \<Rightarrow> string"
  request_id :: string
  now_ms :: int
  now_s :: int
  elapsed_ms :: real
  get_fails :: "string \<Rightarrow> string \<Rightarrow> bool"
  put_fails :: "string \<Rightarrow> string \<Rightarrow> bool"
  event_put_fails :: "nat \<Rightarrow> bool"
  detection_put_fails :: "nat \<Rightarrow> bool"

definition HIGH_DAMAGE_THRESHOLD :: real where
  "HIGH_DAMAGE_THRESHOLD = 100"

definition ACCURACY_RISK_THRESHOLD :: real where
  "ACCURACY_RISK_THRESHOLD = 5 / 10"

definition HEADSHOT_RISK_THRESHOLD :: real where
  "HEADSHOT_RISK_THRESHOLD = 3 / 10"

definition ALWAYS_STORE_EVENTS :: "string set" where
  "ALWAYS_STORE_EVENTS =
     {''SESSION_START'', ''SESSION_END'', ''PLAYER_KILLED'', ''PLAYER_REPORTED'',
      ''PLAYER_VIOLATION''}"

subsection \<open>Python primitives\<close>

text \<open>\<^verbatim>\<open>int(x)\<close> truncates towards zero.\<close>

definition py_int :: "real \<Rightarrow> int" where
  "py_int x = (if 0 \<le> x then \<lfloor>x\<rfloor> else \<lceil>x\<rceil>)"

text \<open>\<^verbatim>\<open>x ** 0.5\<close> on a float.\<close>

definition pow_half :: "real \<Rightarrow> pynum" where
  "pow_half x = (if 0 \<le> x then Fl (sqrt x) else Cplx)"

text \<open>\<^verbatim>\<open>float(x)\<close> on a stored number.\<close>

definition py_float :: "pynum \<Rightarrow> py_error + real" where
  "py_float x = (case x of Fl r \<Rightarrow> Inr r | Cplx \<Rightarrow> Inl TypeError)"

text \<open>
  \<^verbatim>\<open>metadata.get(key, default)\<close>: only a dictionary has the method. The association
  list holds the items of the dictionary, one per key.
\<close>

definition md_get :: "json \<Rightarrow> string \<Rightarrow> json \<Rightarrow> py_error + json" where
  "md_get m k d =
     (case m of
        JObj kvs \<Rightarrow> Inr (case map_of kvs k of Some v \<Rightarrow> v | None \<Rightarrow> d)
      | _ \<Rightarrow> Inl AttributeError)"

text \<open>
  The value of an operand of \<^verbatim>\<open>+\<close>, \<^verbatim>\<open>/\<close> or \<^verbatim>\<open>>\<close> against a number: numbers and
  booleans take part in arithmetic, every other JSON value raises TypeError.
\<close>

definition as_num :: "json \<Rightarrow> py_error + real" where
  "as_num j =
     (case j of
        JNum r \<Rightarrow> Inr r
      | JBool b \<Rightarrow> Inr (if b then 1 else 0)
      | _ \<Rightarrow> Inl TypeError)"

text \<open>Python's \<^verbatim>\<open>==\<close> on JSON values: \<^verbatim>\<open>True == 1\<close>, and dictionaries ignore order.\<close>

fun json_eq :: "json \<Rightarrow> json \<Rightarrow> bool" where
  "json_eq JNull b = (b = JNull)"
| "json_eq (JBool x) b =
     (case b of JBool y \<Rightarrow> x = y | JNum r \<Rightarrow> r = (if x then 1 else 0) | _ \<Rightarrow> False)"
| "json_eq (JNum r) b =
     (case b of JNum r' \<Rightarrow> r = r' | JBool y \<Rightarrow> r = (if y then 1 else 0) | _ \<Rightarrow> False)"
| "json_eq (JStr s) b = (b = JStr s)"
| "json_eq (JArr xs) b =
     (case b of JArr ys \<Rightarrow> list_all2 json_eq xs ys | _ \<Rightarrow> False)"
| "json_eq (JObj kvs) b =
     (case b of
        JObj kws \<Rightarrow>
          length kvs = length kws \<and>
          list_all (\<lambda>kv. case map_of kws (fst kv) of
                            None \<Rightarrow> False
                          | Some w \<Rightarrow> json_eq (snd kv) w) kvs
      | _ \<Rightarrow> False)"

definition opt_json_eq :: "json option \<Rightarrow> json option \<Rightarrow> bool" where
  "opt_json_eq a b =
     (case (a, b) of
        (None, None) \<Rightarrow> True
      | (Some x, Some y) \<Rightarrow> json_eq x y
      | _ \<Rightarrow> False)"

text \<open>Equality of two event dictionaries.\<close>

definition evt_eq :: "event \<Rightarrow> event \<Rightarrow> bool" where
  "evt_eq a b \<longleftrightarrow>
     eventId a = eventId b \<and> owner a = owner b \<and> playerId a = playerId b \<and>
     actionType a = actionType b \<and> timestamp a = timestamp b \<and>
     sessionId a = sessionId b \<and> opt_json_eq (metadata a) (metadata b) \<and>
     interesting_reason a = interesting_reason b"

text \<open>
  \<^verbatim>\<open>evt in interesting_events\<close> for the event at reference \<open>i\<close>: Python compares by
  identity first and by \<^verbatim>\<open>==\<close> otherwise.
\<close>

definition py_in :: "event list \<Rightarrow> nat \<Rightarrow> nat list \<Rightarrow> bool" where
  "py_in heap i refs = list_ex (\<lambda>j. j = i \<or> evt_eq (heap ! j) (heap ! i)) refs"

subsection \<open>extract_features\<close>

text \<open>
  The counters of the loop. The variables \<^verbatim>\<open>batch_shots\<close>, \<^verbatim>\<open>batch_hits\<close>
  and \<^verbatim>\<open>batch_headshots\<close> of the source are written and never read; they are left out.
\<close>

record tally =
  shots_fired :: real
  shots_hit :: real
  headshots :: real
  kills :: int

definition tally0 :: tally where
  "tally0 = \<lparr>shots_fired = 0, shots_hit = 0, headshots = 0, kills = 0\<rparr>"

text \<open>
  \<^verbatim>\<open>metadata = evt.get('metadata', {})\<close>, then the JSON parse of a string with the
  empty dictionary on a parse failure.
\<close>

definition coerce_metadata :: "env \<Rightarrow> event \<Rightarrow> json" where
  "coerce_metadata e evt =
     (case metadata evt of
        None \<Rightarrow> JObj []
      | Some (JStr s) \<Rightarrow> (case loads e s of None \<Rightarrow> JObj [] | Some j \<Rightarrow> j)
      | Some m \<Rightarrow> m)"

definition action_of :: "event \<Rightarrow> string" where
  "action_of evt = (case actionType evt of None \<Rightarrow> [] | Some a \<Rightarrow> a)"

text \<open>
  The three reads of a \<^verbatim>\<open>WEAPON_FIRED\<close> event and the six additions that follow:
  the reads raise AttributeError on a non-dictionary, the additions TypeError on a
  value that is not a number.
\<close>

definition weapon_stats :: "json \<Rightarrow> py_error + real \<times> real \<times> real" where
  "weapon_stats md =
     (case md_get md ''shots'' (JNum 1) of
        Inl er \<Rightarrow> Inl er
      | Inr js \<Rightarrow>
     (case md_get md ''hits'' (JNum 0) of
        Inl er \<Rightarrow> Inl er
      | Inr jh \<Rightarrow>
     (case md_get md ''headshots'' (JNum 0) of
        Inl er \<Rightarrow> Inl er
      | Inr jhs \<Rightarrow>
     (case as_num js of
        Inl er \<Rightarrow> Inl er
      | Inr evt_shots \<Rightarrow>
     (case as_num jh of
        Inl er \<Rightarrow> Inl er
      | Inr evt_hits \<Rightarrow>
     (case as_num jhs of
        Inl er \<Rightarrow> Inl er
      | Inr evt_headshots \<Rightarrow> Inr (evt_shots, evt_hits, evt_headshots)))))))"

text \<open>\<^verbatim>\<open>metadata.get('damage', 0)\<close> and its comparison operand.\<close>

definition attack_damage :: "json \<Rightarrow> py_error + real" where
  "attack_damage md =
     (case md_get md ''damage'' (JNum 0) of
        Inl er \<Rightarrow> Inl er
      | Inr jd \<Rightarrow> as_num jd)"

definition tag :: "event list \<Rightarrow> nat \<Rightarrow> reason \<Rightarrow> event list" where
  "tag heap i r = heap[i := (heap ! i)\<lparr>interesting_reason := Some r\<rparr>]"

text \<open>
  One iteration of the loop over the player's events. The heap is returned in
  every case: what was written into an event before an exception stays written.
\<close>

definition process_event ::
  "env \<Rightarrow> nat \<Rightarrow> event list \<Rightarrow> tally \<Rightarrow> nat list
     \<Rightarrow> event list \<times> (py_error + tally \<times> nat list)" where
  "process_event e i heap t intr =
     (let evt = heap ! i;
          action_type = action_of evt;
          md = coerce_metadata e evt
      in
      if action_type \<in> ALWAYS_STORE_EVENTS then
        (heap, Inr (if action_type = ''PLAYER_KILLED'' then t\<lparr>kills := kills t + 1\<rparr> else t,
                    intr @ [i]))
      else if action_type = ''WEAPON_FIRED'' then
        (case weapon_stats md of
           Inl er \<Rightarrow> (heap, Inl er)
         | Inr (evt_shots, evt_hits, evt_headshots) \<Rightarrow>
             (let t' = t\<lparr>shots_fired := shots_fired t + evt_shots,
                         shots_hit := shots_hit t + evt_hits,
                         headshots := headshots t + evt_headshots\<rparr>
              in
              if real_of_int (MIN_SHOTS_FOR_INTERESTING e) \<le> evt_shots then
                (let evt_accuracy = (if 0 < evt_shots then evt_hits / evt_shots else 0);
                     evt_hs_ratio = evt_headshots / max evt_hits 1
                 in
                 if ACCURACY_INTERESTING_THRESHOLD e \<le> evt_accuracy then
                   (tag heap i (high_accuracy evt_accuracy), Inr (t', intr @ [i]))
                 else if HEADSHOT_INTERESTING_THRESHOLD e \<le> evt_hs_ratio then
                   (tag heap i (high_headshot evt_hs_ratio), Inr (t', intr @ [i]))
                 else (heap, Inr (t', intr)))
              else (heap, Inr (t', intr))))
      else if action_type = ''PLAYER_ATTACK'' then
        (case attack_damage md of
           Inl er \<Rightarrow> (heap, Inl er)
         | Inr damage \<Rightarrow>
             if HIGH_DAMAGE_THRESHOLD < damage then
               (tag heap i (high_damage damage), Inr (t, intr @ [i]))
             else (heap, Inr (t, intr)))
      else (heap, Inr (t, intr)))"

fun scan_events ::
  "env \<Rightarrow> nat list \<Rightarrow> event list \<Rightarrow> tally \<Rightarrow> nat list
     \<Rightarrow> event list \<times> (py_error + tally \<times> nat list)" where
  "scan_events e [] heap t intr = (heap, Inr (t, intr))"
| "scan_events e (i # rest) heap t intr =
     (case process_event e i heap t intr of
        (heap', Inl er) \<Rightarrow> (heap', Inl er)
      | (heap', Inr (t', intr')) \<Rightarrow> scan_events e rest heap' t' intr')"

definition int_or :: "int option \<Rightarrow> int \<Rightarrow> int" where
  "int_or v d = (case v of None \<Rightarrow> d | Some x \<Rightarrow> x)"

definition real_or :: "real option \<Rightarrow> real \<Rightarrow> real" where
  "real_or v d = (case v of None \<Rightarrow> d | Some x \<Rightarrow> x)"

definition pynum_or :: "pynum option \<Rightarrow> pynum \<Rightarrow> pynum" where
  "pynum_or v d = (case v of None \<Rightarrow> d | Some x \<Rightarrow> x)"

text \<open>
  The Welford step and the carry-over of the four running-statistics keys. The
  division \<^verbatim>\<open>delta / n\<close> raises when the stored sample count is \<open>-1\<close>.
\<close>

definition running_stats :: "tally \<Rightarrow> item \<Rightarrow> item \<Rightarrow> py_error + item" where
  "running_stats t existing_state features =
     (if 0 < shots_fired t then
        (let session_accuracy = shots_hit t / shots_fired t;
             n0 = real_of_int (int_or (accuracySampleCount existing_state) 0);
             mean0 = real_or (accuracyMean existing_state) 0;
             m20 = real_or (accuracyM2 existing_state) 0;
             n = n0 + 1;
             delta = session_accuracy - mean0
         in
         if n = 0 then Inl ZeroDivisionError
         else
           (let mean = mean0 + delta / n;
                delta2 = session_accuracy - mean;
                m2 = m20 + delta * delta2
            in Inr (features\<lparr>accuracySampleCount := Some (py_int n),
                              accuracyMean := Some mean,
                              accuracyM2 := Some m2,
                              accuracyStdDev :=
                                Some (if 1 < n then pow_half (m2 / n) else Fl 0)\<rparr>)))
      else
        (case py_float (pynum_or (accuracyStdDev existing_state) (Fl 0)) of
           Inl er \<Rightarrow> Inl er
         | Inr sd \<Rightarrow>
             Inr (features\<lparr>accuracySampleCount :=
                               Some (int_or (accuracySampleCount existing_state) 0),
                            accuracyMean := Some (real_or (accuracyMean existing_state) 0),
                            accuracyM2 := Some (real_or (accuracyM2 existing_state) 0),
                            accuracyStdDev := Some (Fl sd)\<rparr>)))"

definition risk_of :: "item \<Rightarrow> real" where
  "risk_of features =
     (let a = real_or (accuracy features) 0;
          h = real_or (headshotRatio features) 0;
          r1 = (if ACCURACY_RISK_THRESHOLD < a
                then (a - ACCURACY_RISK_THRESHOLD) * 100 else 0);
          r2 = (if HEADSHOT_RISK_THRESHOLD < h
                then r1 + (h - HEADSHOT_RISK_THRESHOLD) * 100 else r1)
      in min r2 100)"

text \<open>The part of \<^verbatim>\<open>extract_features\<close> after the loop.\<close>

definition merge_totals :: "tally \<Rightarrow> item \<Rightarrow> py_error + item" where
  "merge_totals t existing_state =
     (let existing_shots = real_of_int (int_or (totalShots existing_state) 0);
          existing_hits = real_of_int (int_or (totalHits existing_state) 0);
          total_shots = existing_shots + shots_fired t;
          total_hits = existing_hits + shots_hit t;
          total_headshots =
            real_of_int (py_int (real_or (totalHeadshots existing_state) 0)) + headshots t;
          f1 = empty_item\<lparr>totalShots := Some (py_int total_shots),
                           totalHits := Some (py_int total_hits),
                           totalHeadshots := Some total_headshots,
                           totalKills := Some (int_or (totalKills existing_state) 0 + kills t)\<rparr>;
          f2 = (if 0 < total_shots
                then f1\<lparr>accuracy := Some (total_hits / total_shots),
                         headshotRatio := Some (total_headshots / max total_hits 1)\<rparr>
                else f1\<lparr>accuracy := Some 0, headshotRatio := Some 0\<rparr>)
      in
      case running_stats t existing_state f2 of
        Inl er \<Rightarrow> Inl er
      | Inr f3 \<Rightarrow> Inr (f3\<lparr>risk_score := Some (risk_of f3)\<rparr>))"

text \<open>
  \<^verbatim>\<open>extract_features(events, existing_state)\<close>; \<open>refs\<close> are the references of the
  events of the list. The result is the heap after the call, and either the
  exception raised or the pair of the feature dictionary and the interesting events.
\<close>

definition extract_features ::
  "env \<Rightarrow> event list \<Rightarrow> nat list \<Rightarrow> item
     \<Rightarrow> event list \<times> (py_error + item \<times> nat list)" where
  "extract_features e heap refs existing_state =
     (case scan_events e refs heap tally0 [] of
        (heap', Inl er) \<Rightarrow> (heap', Inl er)
      | (heap', Inr (t, interesting_events)) \<Rightarrow>
          (case merge_totals t existing_state of
             Inl er \<Rightarrow> (heap', Inl er)
           | Inr features \<Rightarrow> (heap', Inr (features, interesting_events))))"

subsection \<open>update_player_states\<close>

text \<open>
  \<^verbatim>\<open>player_events[player_id].append(evt)\<close> on a \<^verbatim>\<open>defaultdict(list)\<close>: a dictionary
  keeps its keys in the order of their first insertion.
\<close>

fun dict_append :: "string \<Rightarrow> nat \<Rightarrow> (string \<times> nat list) list \<Rightarrow> (string \<times> nat list) list" where
  "dict_append k i [] = [(k, [i])]"
| "dict_append k i ((k', refs) # rest) =
     (if k = k' then (k', refs @ [i]) # rest else (k', refs) # dict_append k i rest)"

definition player_key :: "event \<Rightarrow> string" where
  "player_key evt = (case playerId evt of None \<Rightarrow> ''unknown'' | Some p \<Rightarrow> p)"

definition group_events :: "event list \<Rightarrow> (string \<times> nat list) list" where
  "group_events heap =
     foldl (\<lambda>d i. dict_append (player_key (heap ! i)) i d) [] [0..<length heap]"

text \<open>\<^verbatim>\<open>d[k] = v\<close> on a dictionary kept as an association list.\<close>

fun dict_set :: "string \<Rightarrow> 'v \<Rightarrow> (string \<times> 'v) list \<Rightarrow> (string \<times> 'v) list" where
  "dict_set k v [] = [(k, v)]"
| "dict_set k v ((k', v') # rest) =
     (if k = k' then (k', v) # rest else (k', v') # dict_set k v rest)"

definition format_pk :: "string \<Rightarrow> string \<Rightarrow> string" where
  "format_pk own player_id = own @ ''#'' @ player_id"

text \<open>The state of the loop over the players.\<close>

record ups =
  st :: store
  hp :: "event list"
  player_updates :: "(string \<times> item) list"
  interesting_events :: "nat list"

definition logged :: "store_op \<Rightarrow> store \<Rightarrow> store" where
  "logged op s = s\<lparr>oplog := oplog s @ [op]\<rparr>"

text \<open>
  \<^verbatim>\<open>table.put_item(Item=it)\<close> on the player-state table. The serializer of the
  client rejects a complex number before anything is sent.
\<close>

definition put_item :: "env \<Rightarrow> string \<Rightarrow> string \<Rightarrow> item \<Rightarrow> store \<Rightarrow> py_error + store" where
  "put_item e k1 k2 it s =
     (if accuracyStdDev it = Some Cplx then Inl TypeError
      else if put_fails e k1 k2 then Inl ClientError
      else Inr (s\<lparr>players := (players s)((k1, k2) \<mapsto> it)\<rparr>))"

text \<open>
  The body of the loop over the players: everything from the read of the prior
  state to the entry in \<^verbatim>\<open>player_updates\<close> is inside one \<^verbatim>\<open>try\<close>, and the handler
  of the exception only logs a warning. The prior state is the item read under the
  sort key \<^verbatim>\<open>PROFILE\<close>. The feature dictionary has none of the five keys that the
  FEATURES item puts in front of it.
\<close>

definition update_player ::
  "env \<Rightarrow> string \<Rightarrow> string \<times> nat list \<Rightarrow> ups \<Rightarrow> ups" where
  "update_player e own grp u =
     (let player_id = fst grp;
          p_events = snd grp;
          k = format_pk own player_id;
          now = now_ms e;
          s1 = logged (GetItem k ''PROFILE'') (st u)
      in
      if get_fails e k ''PROFILE'' then u\<lparr>st := s1\<rparr>
      else
        (let existing = (case players s1 (k, ''PROFILE'') of None \<Rightarrow> empty_item | Some it \<Rightarrow> it)
         in
         case extract_features e (hp u) p_events existing of
           (heap', Inl er) \<Rightarrow> u\<lparr>st := s1, hp := heap'\<rparr>
         | (heap', Inr (features, player_interesting)) \<Rightarrow>
             (let interesting' = interesting_events u @ player_interesting;
                  profile_item =
                    empty_item\<lparr>pk := Some k, sk := Some ''PROFILE'',
                               item_owner := Some own, item_playerId := Some player_id,
                               lastSeen := Some now,
                               firstSeen := Some (int_or (firstSeen existing) now),
                               eventCount :=
                                 Some (int_or (eventCount existing) 0 + int (length p_events)),
                               riskScore := Some (real_or (risk_score features) 0),
                               status :=
                                 Some (case status existing of
                                         None \<Rightarrow> ''MONITOR'' | Some x \<Rightarrow> x)\<rparr>;
                  s2 = logged (PutItem k ''PROFILE'') s1
              in
              case put_item e k ''PROFILE'' profile_item s2 of
                Inl er \<Rightarrow>
                  u\<lparr>st := s2, hp := heap', interesting_events := interesting'\<rparr>
              | Inr s3 \<Rightarrow>
                  (let features_item =
                         features\<lparr>pk := Some k, sk := Some ''FEATURES'',
                                   item_owner := Some own, item_playerId := Some player_id,
                                   updatedAt := Some now\<rparr>;
                       s4 = logged (PutItem k ''FEATURES'') s3
                   in
                   case put_item e k ''FEATURES'' features_item s4 of
                     Inl er \<Rightarrow>
                       u\<lparr>st := s4, hp := heap', interesting_events := interesting'\<rparr>
                   | Inr s5 \<Rightarrow>
                       u\<lparr>st := s5, hp := heap', interesting_events := interesting',
                          player_updates :=
                            dict_set player_id features (player_updates u)\<rparr>))))"

definition update_player_states :: "env \<Rightarrow> store \<Rightarrow> event list \<Rightarrow> string \<Rightarrow> ups" where
  "update_player_states e s events own =
     foldl (\<lambda>u grp. update_player e own grp u)
       \<lparr>st = s, hp = events, player_updates = [], interesting_events = []\<rparr>
       (group_events events)"

subsection \<open>run_detection\<close>

text \<open>The checks of \<^verbatim>\<open>run_detection\<close> for one player.\<close>

definition detect_player :: "env \<Rightarrow> string \<Rightarrow> item \<Rightarrow> py_error + detection list" where
  "detect_player e player_id features =
     (let sample_count = int_or (accuracySampleCount features) 0 in
      if sample_count < MIN_SAMPLES_FOR_DETECTION e then Inr []
      else
        (let mean = real_or (accuracyMean features) 0;
             current = real_or (accuracy features) 0;
             headshot_ratio = real_or (headshotRatio features) 0;
             hs = (if 5 / 10 < headshot_ratio then
                     [\<lparr>det_playerId = player_id, detectorType = THRESHOLD_HEADSHOT,
                       score = headshot_ratio * 100, threshold = 50,
                       det_features =
                         [(''headshotRatio'', headshot_ratio),
                          (''totalHeadshots'', real_or (totalHeadshots features) 0),
                          (''totalHits'', real_of_int (int_or (totalHits features) 0))],
                       explanation = headshot_exceeds headshot_ratio\<rparr>]
                   else [])
         in
         case pynum_or (accuracyStdDev features) (Fl 0) of
           Cplx \<Rightarrow> Inl TypeError
         | Fl std_dev \<Rightarrow>
             if 1 / 100 < std_dev then
               (let z_score = (current - mean) / std_dev in
                if ZSCORE_THRESHOLD e < \<bar>z_score\<bar> then
                  Inr (\<lparr>det_playerId = player_id, detectorType = ZSCORE_ACCURACY,
                        score = \<bar>z_score\<bar>, threshold = ZSCORE_THRESHOLD e,
                        det_features =
                          [(''accuracy'', current), (''mean'', mean),
                           (''stdDev'', std_dev), (''zScore'', z_score)],
                        explanation = zscore_exceeds z_score (ZSCORE_THRESHOLD e)\<rparr> # hs)
                else Inr hs)
             else Inr hs))"

fun run_detection :: "env \<Rightarrow> (string \<times> item) list \<Rightarrow> py_error + detection list" where
  "run_detection e [] = Inr []"
| "run_detection e ((player_id, features) # rest) =
     (case detect_player e player_id features of
        Inl er \<Rightarrow> Inl er
      | Inr ds \<Rightarrow>
          (case run_detection e rest of
             Inl er \<Rightarrow> Inl er
           | Inr ds' \<Rightarrow> Inr (ds @ ds')))"

subsection \<open>store_events and store_detections\<close>

definition event_row :: "env \<Rightarrow> string \<Rightarrow> nat \<Rightarrow> event \<Rightarrow> row" where
  "event_row e own n evt =
     (let now = now_ms e;
          ttl = now_s e + EVENT_TTL_DAYS e * 24 * 60 * 60;
          event_id = (case eventId evt of
                        None \<Rightarrow> uuid4 e n
                      | Some x \<Rightarrow> if x = [] then uuid4 e n else x);
          player_id = player_key evt;
          ts = int_or (timestamp evt) now;
          action_type = (case actionType evt of None \<Rightarrow> ''UNKNOWN'' | Some a \<Rightarrow> a)
      in
      [(''pk'', S (format_pk own player_id)),
       (''sk'', S (str_int e ts @ ''#'' @ event_id)),
       (''eventId'', S event_id),
       (''owner'', S own),
       (''playerId'', S player_id),
       (''actionType'', S action_type),
       (''timestamp'', N (real_of_int ts)),
       (''sessionId'', (case sessionId evt of None \<Rightarrow> NULL | Some x \<Rightarrow> S x)),
       (''metadata'', S (dumps e (case metadata evt of None \<Rightarrow> JObj [] | Some m \<Rightarrow> m))),
       (''ttl'', N (real_of_int ttl))])"

text \<open>
  The loop of \<^verbatim>\<open>store_events\<close> from its \<open>n\<close>-th iteration on; a put that raises is
  logged by the source and the loop goes on. The result is the number of events
  stored and the store.
\<close>

fun store_events_from ::
  "env \<Rightarrow> string \<Rightarrow> event list \<Rightarrow> nat \<Rightarrow> nat list \<Rightarrow> nat \<times> store \<Rightarrow> nat \<times> store" where
  "store_events_from e own heap n [] acc = acc"
| "store_events_from e own heap n (r # rest) (stored, s) =
     (let s1 = logged BatchPutEvent s in
      if event_put_fails e n then store_events_from e own heap (Suc n) rest (stored, s1)
      else store_events_from e own heap (Suc n) rest
             (stored + 1,
              s1\<lparr>events_table := events_table s1 @ [event_row e own n (heap ! r)]\<rparr>))"

definition store_events :: "env \<Rightarrow> store \<Rightarrow> event list \<Rightarrow> nat list \<Rightarrow> string \<Rightarrow> nat \<times> store" where
  "store_events e s heap refs own = store_events_from e own heap 0 refs (0, s)"

definition detection_row :: "env \<Rightarrow> string \<Rightarrow> nat \<Rightarrow> detection \<Rightarrow> row" where
  "detection_row e own n d =
     (let now = now_ms e;
          ttl = now_s e + EVENT_TTL_DAYS e * 24 * 60 * 60;
          detection_id = uuid4 e n;
          player_id = det_playerId d
      in
      [(''pk'', S (format_pk own player_id)),
       (''sk'', S (str_int e now @ ''#'' @ detection_id)),
       (''detectionId'', S detection_id),
       (''owner'', S own),
       (''playerId'', S player_id),
       (''detectorType'',
          S (case detectorType d of
               ZSCORE_ACCURACY \<Rightarrow> ''ZSCORE_ACCURACY''
             | THRESHOLD_HEADSHOT \<Rightarrow> ''THRESHOLD_HEADSHOT'')),
       (''score'', N (score d)),
       (''threshold'', N (threshold d)),
       (''features'', S (dumps e (JObj (map (\<lambda>kv. (fst kv, JNum (snd kv))) (det_features d))))),
       (''explanation'', T (explanation d)),
       (''status'', S ''OPEN''),
       (''createdAt'', N (real_of_int now)),
       (''ttl'', N (real_of_int ttl))])"

fun store_detections_from ::
  "env \<Rightarrow> string \<Rightarrow> nat \<Rightarrow> detection list \<Rightarrow> nat \<times> store \<Rightarrow> nat \<times> store" where
  "store_detections_from e own n [] acc = acc"
| "store_detections_from e own n (d # rest) (stored, s) =
     (let s1 = logged BatchPutDetection s in
      if detection_put_fails e n then store_detections_from e own (Suc n) rest (stored, s1)
      else store_detections_from e own (Suc n) rest
             (stored + 1,
              s1\<lparr>detections_table := detections_table s1 @ [detection_row e own n d]\<rparr>))"

definition store_detections :: "env \<Rightarrow> store \<Rightarrow> detection list \<Rightarrow> string \<Rightarrow> nat \<times> store" where
  "store_detections e s ds own = store_detections_from e own 0 ds (0, s)"

subsection \<open>lambda_handler\<close>

text \<open>
  The body of the response is the dictionary handed to \<^verbatim>\<open>json.dumps\<close>, kept as
  the list of its items.
\<close>

definition create_response :: "int \<Rightarrow> (string \<times> rval) list \<Rightarrow> response" where
  "create_response status_code b =
     \<lparr>statusCode = status_code,
      headers = [(''Content-Type'', ''application/json''),
                 (''Access-Control-Allow-Origin'', ''*'')],
      body = b\<rparr>"

text \<open>
  The loop that adds the events of the players with a detection: \<open>todo\<close> are the
  references of the input events still to visit.
\<close>

fun add_detected :: "event list \<Rightarrow> string set \<Rightarrow> nat list \<Rightarrow> nat list \<Rightarrow> nat list" where
  "add_detected heap ids [] interesting = interesting"
| "add_detected heap ids (i # todo) interesting =
     add_detected heap ids todo
       (if (case playerId (heap ! i) of None \<Rightarrow> False | Some p \<Rightarrow> p \<in> ids)
           \<and> \<not> py_in heap i interesting
        then interesting @ [i] else interesting)"

text \<open>
  The handler after the body has been parsed and found to hold a non-empty list of
  events.
\<close>

definition process_batch :: "env \<Rightarrow> store \<Rightarrow> event list \<Rightarrow> response \<times> store" where
  "process_batch e s events =
     (let own = (case owner (hd events) of None \<Rightarrow> ''unknown'' | Some x \<Rightarrow> x);
          u = update_player_states e s events own
      in
      case run_detection e (player_updates u) of
        Inl er \<Rightarrow>
          (create_response 500
             [(''success'', RBool False), (''error'', RErr er),
              (''requestId'', RStr (request_id e))], st u)
      | Inr detections \<Rightarrow>
          (let detection_player_ids = set (map det_playerId detections);
               interesting =
                 add_detected (hp u) detection_player_ids [0..<length events]
                   (interesting_events u);
               (events_stored, s1) =
                 (if interesting \<noteq> [] then store_events e (st u) (hp u) interesting own
                  else (0, st u));
               (detections_stored, s2) =
                 (if detections \<noteq> [] then store_detections e s1 detections own
                  else (0, s1));
               events_skipped = int (length events) - int (length interesting)
           in
           (create_response 200
              [(''success'', RBool True),
               (''eventsReceived'', RNum (real (length events))),
               (''eventsStored'', RNum (real events_stored)),
               (''eventsSkipped'', RNum (real_of_int events_skipped)),
               (''playersUpdated'', RNum (real (length (player_updates u)))),
               (''detectionsCreated'', RNum (real detections_stored)),
               (''processingTimeMs'', RNum (elapsed_ms e)),
               (''requestId'', RStr (request_id e))], s2)))"

text \<open>
  \<^verbatim>\<open>lambda_handler(event, context)\<close>: the argument is the value under the key
  \<^verbatim>\<open>body\<close> of the request, \<open>None\<close> when the key is absent. A body that is a string is
  decoded first; the decoder returns \<open>None\<close> for a JSONDecodeError.
\<close>

definition lambda_handler :: "env \<Rightarrow> store \<Rightarrow> request_body option \<Rightarrow> response \<times> store" where
  "lambda_handler e s b =
     (let parsed =
            (case b of
               None \<Rightarrow> Some None
             | Some (BodyObject evs) \<Rightarrow> Some evs
             | Some (BodyString str) \<Rightarrow> loads_body e str)
      in
      case parsed of
        None \<Rightarrow>
          (create_response 400
             [(''success'', RBool False),
              (''error'', RStr ''Invalid JSON in request body''),
              (''requestId'', RStr (request_id e))], s)
      | Some evs \<Rightarrow>
          (let events = (case evs of None \<Rightarrow> [] | Some xs \<Rightarrow> xs) in
           if events = [] then
             (create_response 200
                [(''success'', RBool True),
                 (''eventsProcessed'', RNum 0),
                 (''detectionsCreated'', RNum 0),
                 (''requestId'', RStr (request_id e))], s)
           else process_batch e s events))"

subsection \<open>Notions used in the statements\<close>

text \<open>Two events that differ at most in the key \<^verbatim>\<open>_interesting_reason\<close>.\<close>

definition same_event :: "event \<Rightarrow> event \<Rightarrow> bool" where
  "same_event a b \<longleftrightarrow> a\<lparr>interesting_reason := None\<rparr> = b\<lparr>interesting_reason := None\<rparr>"

text \<open>The keys of an item of the events table, in the order of the source.\<close>

definition event_row_keys :: "string list" where
  "event_row_keys =
     [''pk'', ''sk'', ''eventId'', ''owner'', ''playerId'', ''actionType'', ''timestamp'',
      ''sessionId'', ''metadata'', ''ttl'']"


subsection \<open>A concrete environment and concrete batches\<close>

text \<open>
  The thresholds are the defaults of the module. The store never fails, the
  metadata decoder knows the one document used below, and the clock stands still.
\<close>

definition default_env :: env where
  "default_env =
     \<lparr>ZSCORE_THRESHOLD = 3, MIN_SAMPLES_FOR_DETECTION = 100,
      ACCURACY_INTERESTING_THRESHOLD = 7 / 10, HEADSHOT_INTERESTING_THRESHOLD = 5 / 10,
      MIN_SHOTS_FOR_INTERESTING = 5, EVENT_TTL_DAYS = 90,
      loads = (\<lambda>s. if s = ''{}'' then Some (JObj []) else None),
      dumps = (\<lambda>j. []),
      loads_body = (\<lambda>s. None),
      str_int = (\<lambda>i. []), uuid4 = (\<lambda>n. []), request_id = ''req-1'',
      now_ms = 1000, now_s = 1, elapsed_ms = 0,
      get_fails = (\<lambda>k1 k2. False), put_fails = (\<lambda>k1 k2. False),
      event_put_fails = (\<lambda>n. False), detection_put_fails = (\<lambda>n. False)\<rparr>"

definition empty_store :: store where
  "empty_store =
     \<lparr>players = (\<lambda>k. None), events_table = [], detections_table = [], oplog = []\<rparr>"

definition mk_event :: "string \<Rightarrow> string \<Rightarrow> json option \<Rightarrow> event" where
  "mk_event p a m =
     \<lparr>eventId = None, owner = Some ''t1'', playerId = Some p, actionType = Some a,
      timestamp = None, sessionId = None, metadata = m, interesting_reason = None\<rparr>"

definition fired :: "string \<Rightarrow> real \<Rightarrow> real \<Rightarrow> event" where
  "fired p shots hits =
     mk_event p ''WEAPON_FIRED'' (Some (JObj [(''shots'', JNum shots), (''hits'', JNum hits)]))"

text \<open>Two successive batches of one player, the second run on the store left by the first.\<close>

definition first_batch :: "event list" where
  "first_batch = [fired ''p1'' 10 8]"

definition second_batch :: "event list" where
  "second_batch = [fired ''p1'' 5 1]"

definition store_after_first :: store where
  "store_after_first = st (update_player_states default_env empty_store first_batch ''t1'')"

definition store_after_second :: store where
  "store_after_second =
     st (update_player_states default_env store_after_first second_batch ''t1'')"

definition empty_request :: "request_body option" where
  "empty_request = Some (BodyObject (Some []))"

text \<open>
  Two successive batches of one shot event each, the second with the features of the
  first as prior state; \<open>welford_prior\<close> is the running state after the first.
\<close>

definition welford_batch1 :: "event list" where
  "welford_batch1 = [fired ''p1'' 10 8]"

definition welford_batch2 :: "event list" where
  "welford_batch2 = [fired ''p1'' 10 6]"

definition welford_prior :: item where
  "welford_prior =
     empty_item\<lparr>accuracySampleCount := Some 1, accuracyMean := Some (8 / 10),
                accuracyM2 := Some 0, accuracyStdDev := Some (Fl 0)\<rparr>"

text \<open>Feature vectors at the two detection thresholds.\<close>

definition s5_features :: item where
  "s5_features =
     empty_item\<lparr>accuracy := Some (9 / 10), accuracyMean := Some (5 / 10),
                accuracyStdDev := Some (Fl (1 / 10)), accuracySampleCount := Some 150\<rparr>"


text \<open>
  A store that refuses every put of a FEATURES record, and the state of the loop over
  the players before the first player.
\<close>

definition features_put_fails :: env where
  "features_put_fails = default_env\<lparr>put_fails := (\<lambda>k1 k2. k2 = ''FEATURES'')\<rparr>"

definition start_state :: "event list \<Rightarrow> ups" where
  "start_state events =
     \<lparr>st = empty_store, hp = events, player_updates = [], interesting_events = []\<rparr>"








section \<open>Properties\<close>

subsection \<open>Evaluation\<close>

lemmas model_defs =
  default_env_def empty_store_def mk_event_def fired_def
  extract_features_def merge_totals_def running_stats_def risk_of_def process_event_def
  weapon_stats_def attack_damage_def md_get_def as_num_def coerce_metadata_def action_of_def
  tally0_def tag_def int_or_def real_or_def pynum_or_def py_int_def pow_half_def py_float_def
  empty_item_def ALWAYS_STORE_EVENTS_def HIGH_DAMAGE_THRESHOLD_def ACCURACY_RISK_THRESHOLD_def
  HEADSHOT_RISK_THRESHOLD_def update_player_states_def update_player_def group_events_def
  player_key_def format_pk_def logged_def put_item_def upt_conv_Cons Let_def

subsection \<open>Counters across batches\<close>

text \<open>
  C1. The counters of the FEATURES record are meant to grow from batch to batch,
  each new total being the stored total plus the contribution of the batch. The
  orchestrator hands the PROFILE item to the feature extractor as prior state and
  never reads the FEATURES record, so the stored totals are not carried over: after a
  batch with 10 shots and a batch with 5 shots of the same player the stored
  \<^verbatim>\<open>totalShots\<close> has gone from 10 down to 5, and the only read of the second batch is
  the one of the PROFILE record.
\<close>

theorem totals_not_carried_over:
  "map_option totalShots (players store_after_first (''t1#p1'', ''FEATURES'')) = Some (Some 10)
   \<and> map_option totalShots (players store_after_second (''t1#p1'', ''FEATURES'')) = Some (Some 5)
   \<and> map_option totalHits (players store_after_first (''t1#p1'', ''FEATURES'')) = Some (Some 8)
   \<and> map_option totalHits (players store_after_second (''t1#p1'', ''FEATURES'')) = Some (Some 1)
   \<and> oplog store_after_second =
       [GetItem ''t1#p1'' ''PROFILE'', PutItem ''t1#p1'' ''PROFILE'', PutItem ''t1#p1'' ''FEATURES'',
        GetItem ''t1#p1'' ''PROFILE'', PutItem ''t1#p1'' ''PROFILE'', PutItem ''t1#p1'' ''FEATURES'']"
  by (simp add: store_after_second_def store_after_first_def first_batch_def second_batch_def
      model_defs)

subsection \<open>The empty batch\<close>

text \<open>
  C2, as the code has it. For the body \<^verbatim>\<open>{events: []}\<close> the handler answers 200 with
  exactly the four keys \<^verbatim>\<open>success\<close>, \<^verbatim>\<open>eventsProcessed\<close>, \<^verbatim>\<open>detectionsCreated\<close> and
  \<^verbatim>\<open>requestId\<close>, both counters being 0, and the store, the log of its reads and writes
  included, is the one it was given.
\<close>

theorem empty_batch_response:
  "statusCode (fst (lambda_handler e s (Some (BodyObject (Some []))))) = 200
   \<and> body (fst (lambda_handler e s (Some (BodyObject (Some []))))) =
       [(''success'', RBool True), (''eventsProcessed'', RNum 0),
        (''detectionsCreated'', RNum 0), (''requestId'', RStr (request_id e))]
   \<and> snd (lambda_handler e s (Some (BodyObject (Some [])))) = s"
  by (simp add: lambda_handler_def create_response_def)

text \<open>
  The response to the empty batch has none of the keys \<^verbatim>\<open>eventsReceived\<close>,
  \<^verbatim>\<open>eventsStored\<close> and \<^verbatim>\<open>playersUpdated\<close>, so they are not 0 there.
\<close>

theorem empty_batch_counters_absent:
  "map_of (body (fst (lambda_handler default_env empty_store empty_request))) ''eventsReceived''
     \<noteq> Some (RNum 0)
   \<and> map_of (body (fst (lambda_handler default_env empty_store empty_request))) ''eventsStored''
     = None
   \<and> map_of (body (fst (lambda_handler default_env empty_store empty_request))) ''playersUpdated''
     = None"
  by (simp add: lambda_handler_def create_response_def empty_request_def)

subsection \<open>The running statistics of the accuracy\<close>

lemma py_int_of_int: "py_int (real_of_int k) = k"
  by (simp add: py_int_def)

lemma py_int_of_int_add1: "py_int (real_of_int k + 1) = k + 1"
  using py_int_of_int [of "k + 1"] by simp

lemma sqrt_hundredth: "sqrt (1 / 100) = 1 / 10"
  by (rule real_sqrt_unique) (simp_all add: power2_eq_square)

lemma extract_features_merge:
  assumes "scan_events e refs heap tally0 [] = (heap', Inr (t, intr))"
      and "extract_features e heap refs prior = (heap'', Inr (f, intr'))"
  shows "merge_totals t prior = Inr f \<and> heap'' = heap' \<and> intr' = intr"
  using assms by (simp add: extract_features_def split: sum.splits)

lemma merge_totals_running:
  assumes "merge_totals t prior = Inr f"
  shows "\<exists>f2 f3. running_stats t prior f2 = Inr f3 \<and> f = f3\<lparr>risk_score := Some (risk_of f3)\<rparr>"
  using assms by (auto simp: merge_totals_def Let_def split: sum.splits)

lemma welford_scenario:
  "\<exists>h1 f1 i1 h2 f2 i2.
     extract_features default_env welford_batch1 [0] empty_item = (h1, Inr (f1, i1))
     \<and> extract_features default_env welford_batch2 [0] f1 = (h2, Inr (f2, i2))
     \<and> accuracySampleCount f2 = Some 2 \<and> accuracyMean f2 = Some (7 / 10)
     \<and> accuracyM2 f2 = Some (2 / 100) \<and> accuracyStdDev f2 = Some (Fl (1 / 10))"
  by (simp add: welford_batch1_def welford_batch2_def model_defs sqrt_hundredth)

text \<open>
  C3. Let \<open>t\<close> be the counters of the loop of \<^verbatim>\<open>extract_features\<close> over the batch of
  one player, and let the call return the features \<open>f\<close>. If \<^verbatim>\<open>shots_fired > 0\<close> the
  four keys of the running statistics are one Welford step from the prior state with
  the sample \<^verbatim>\<open>shots_hit / shots_fired\<close>: one step for the batch, whatever the number of
  its events. The standard deviation is the square root of \<^verbatim>\<open>M2'/n'\<close> when
  \<^verbatim>\<open>n' > 1\<close> (the complex root when the quotient is negative) and 0 otherwise. If
  \<^verbatim>\<open>shots_fired\<close> is not positive the four keys are those of the prior state, a missing
  key being 0. Floats are real numbers here. The second conjunct is the scenario of
  two batches with 8 and then 6 hits out of 10 shots.
\<close>

theorem welford_once_per_batch:
  assumes scan: "scan_events e refs heap tally0 [] = (heap', Inr (t, intr))"
      and ex: "extract_features e heap refs prior = (heap'', Inr (f, intr'))"
  shows "(let x = shots_hit t / shots_fired t;
              c = int_or (accuracySampleCount prior) 0;
              mean = real_or (accuracyMean prior) 0;
              M2 = real_or (accuracyM2 prior) 0;
              n' = real_of_int c + 1;
              mean' = mean + (x - mean) / n';
              M2' = M2 + (x - mean) * (x - mean')
          in (0 < shots_fired t \<longrightarrow>
                accuracySampleCount f = Some (c + 1)
                \<and> accuracyMean f = Some mean'
                \<and> accuracyM2 f = Some M2'
                \<and> (1 < n' \<and> 0 \<le> M2' / n' \<longrightarrow> accuracyStdDev f = Some (Fl (sqrt (M2' / n'))))
                \<and> (1 < n' \<and> M2' / n' < 0 \<longrightarrow> accuracyStdDev f = Some Cplx)
                \<and> (\<not> 1 < n' \<longrightarrow> accuracyStdDev f = Some (Fl 0)))
           \<and> (\<not> 0 < shots_fired t \<longrightarrow>
                accuracySampleCount f = Some c
                \<and> accuracyMean f = Some mean
                \<and> accuracyM2 f = Some M2
                \<and> accuracyStdDev f = Some (pynum_or (accuracyStdDev prior) (Fl 0))))
         \<and> (\<exists>h1 f1 i1 h2 f2 i2.
               extract_features default_env welford_batch1 [0] empty_item = (h1, Inr (f1, i1))
               \<and> extract_features default_env welford_batch2 [0] f1 = (h2, Inr (f2, i2))
               \<and> accuracySampleCount f2 = Some 2 \<and> accuracyMean f2 = Some (7 / 10)
               \<and> accuracyM2 f2 = Some (2 / 100) \<and> accuracyStdDev f2 = Some (Fl (1 / 10)))"
proof -
  from scan ex have "merge_totals t prior = Inr f"
    by (simp add: extract_features_merge)
  then obtain f2 f3 where rs: "running_stats t prior f2 = Inr f3"
    and f: "f = f3\<lparr>risk_score := Some (risk_of f3)\<rparr>"
    using merge_totals_running by blast
  have general: "?thesis" if "0 < shots_fired t"
    using rs that welford_scenario unfolding f
    by (auto simp: running_stats_def Let_def py_int_of_int_add1 pow_half_def split: if_splits)
  have "?thesis" if "\<not> 0 < shots_fired t"
    using rs that welford_scenario unfolding f
    by (auto simp: running_stats_def Let_def py_float_def
        split: if_splits sum.splits pynum.splits)
  with general show ?thesis by blast
qed

theorem welford_once_per_batch_witness:
  "\<exists>t f. scan_events default_env [0] welford_batch2 tally0 [] = (welford_batch2, Inr (t, []))
      \<and> extract_features default_env welford_batch2 [0] welford_prior
          = (welford_batch2, Inr (f, []))
      \<and> 0 < shots_fired t
      \<and> accuracySampleCount f = Some 2 \<and> accuracyMean f = Some (7 / 10)
      \<and> accuracyM2 f = Some (2 / 100) \<and> accuracyStdDev f = Some (Fl (1 / 10))"
proof -
  define t where "t = \<lparr>shots_fired = 10, shots_hit = 6, headshots = 0, kills = 0\<rparr>"
  have scan: "scan_events default_env [0] welford_batch2 tally0 [] = (welford_batch2, Inr (t, []))"
    by (simp add: t_def welford_batch2_def model_defs)
  have "\<exists>f. extract_features default_env welford_batch2 [0] welford_prior
          = (welford_batch2, Inr (f, []))"
    by (simp add: welford_batch2_def welford_prior_def model_defs)
  then obtain f where ex: "extract_features default_env welford_batch2 [0] welford_prior
          = (welford_batch2, Inr (f, []))" ..
  have pos: "0 < shots_fired t" by (simp add: t_def)
  from welford_once_per_batch [OF scan ex, THEN conjunct1] pos
  have "accuracySampleCount f = Some 2 \<and> accuracyMean f = Some (7 / 10)
      \<and> accuracyM2 f = Some (2 / 100) \<and> accuracyStdDev f = Some (Fl (1 / 10))"
    by (simp add: Let_def t_def welford_prior_def empty_item_def int_or_def real_or_def
        sqrt_hundredth)
  with scan ex pos show ?thesis by blast
qed

subsection \<open>Detection\<close>

lemma run_detection_member:
  assumes "run_detection e pu = Inr ds"
  shows "d \<in> set ds \<longleftrightarrow>
           (\<exists>p f ds'. (p, f) \<in> set pu \<and> detect_player e p f = Inr ds' \<and> d \<in> set ds')"
  using assms
proof (induction pu arbitrary: ds)
  case Nil
  then show ?case by simp
next
  case (Cons a pu)
  obtain p f where a: "a = (p, f)" by (cases a)
  from Cons.prems obtain d1 d2 where d1: "detect_player e p f = Inr d1"
    and d2: "run_detection e pu = Inr d2" and ds: "ds = d1 @ d2"
    by (auto simp: a split: sum.splits)
  from Cons.IH [OF d2] show ?case
    unfolding ds a using d1 by auto
qed

lemma run_detection_each:
  assumes "run_detection e pu = Inr ds" and "(p, f) \<in> set pu"
  shows "\<exists>ds'. detect_player e p f = Inr ds'"
  using assms
  by (induction pu arbitrary: ds) (auto split: sum.splits)

lemma detect_player_id:
  assumes "detect_player e p f = Inr ds'" and "d \<in> set ds'"
  shows "det_playerId d = p"
  using assms
  by (auto simp: detect_player_def Let_def split: if_splits pynum.splits)

lemma run_detection_of_player:
  assumes run: "run_detection e pu = Inr ds" and dist: "distinct (map fst pu)"
      and mem: "(p, f) \<in> set pu" and dp: "detect_player e p f = Inr ds'"
  shows "{d \<in> set ds. det_playerId d = p} = set ds'"
proof -
  have "d \<in> set ds'" if "d \<in> set ds" and "det_playerId d = p" for d
  proof -
    from that(1) run obtain q g dq where q: "(q, g) \<in> set pu"
      and dq: "detect_player e q g = Inr dq" and d: "d \<in> set dq"
      by (auto simp: run_detection_member)
    from detect_player_id [OF dq d] that(2) have "q = p" by simp
    with q mem dist have "g = f" by (meson eq_key_imp_eq_value)
    with dq dp d \<open>q = p\<close> show ?thesis by simp
  qed
  moreover have "d \<in> set ds \<and> det_playerId d = p" if "d \<in> set ds'" for d
    using that run mem dp detect_player_id [OF dp that]
    by (auto simp: run_detection_member)
  ultimately show ?thesis by blast
qed

lemma detect_player_zscore:
  assumes "detect_player e p f = Inr ds'"
      and "pynum_or (accuracyStdDev f) (Fl 0) = Fl sd"
  shows "((\<exists>d\<in>set ds'. detectorType d = ZSCORE_ACCURACY) \<longleftrightarrow>
            (MIN_SAMPLES_FOR_DETECTION e \<le> int_or (accuracySampleCount f) 0
             \<and> 1 / 100 < sd
             \<and> ZSCORE_THRESHOLD e
                 < \<bar>(real_or (accuracy f) 0 - real_or (accuracyMean f) 0) / sd\<bar>))
       \<and> (\<forall>d\<in>set ds'. detectorType d = ZSCORE_ACCURACY \<longrightarrow>
             score d = \<bar>(real_or (accuracy f) 0 - real_or (accuracyMean f) 0) / sd\<bar>
             \<and> map_of (det_features d) ''zScore''
                 = Some ((real_or (accuracy f) 0 - real_or (accuracyMean f) 0) / sd))"
  using assms
  by (auto simp: detect_player_def Let_def split: if_splits)


lemma detect_player_floor:
  assumes "detect_player e p f = Inr ds'"
      and "int_or (accuracySampleCount f) 0 < MIN_SAMPLES_FOR_DETECTION e"
  shows "ds' = []"
  using assms by (simp add: detect_player_def)

text \<open>
  C4. Let \<^verbatim>\<open>run_detection\<close> return the detections \<open>ds\<close> for the dictionary \<open>pu\<close> of
  updated players, and let \<open>f\<close> be the features of player \<open>p\<close>, with standard deviation
  \<open>sd\<close>. A \<^verbatim>\<open>ZSCORE_ACCURACY\<close> detection of \<open>p\<close> is among \<open>ds\<close> if and only if the sample
  count is at least \<^verbatim>\<open>MIN_SAMPLES_FOR_DETECTION\<close>, \<open>sd > 0.01\<close> and
  \<open>|z| > ZSCORE_THRESHOLD\<close> for \<open>z = (accuracy - accuracyMean) / sd\<close>; its score is
  \<open>|z|\<close> and its snapshot holds \<open>z\<close> itself under \<^verbatim>\<open>zScore\<close>. Below the sample floor
  no detection of \<open>p\<close> of either type is among \<open>ds\<close>.
\<close>

theorem zscore_detection_iff:
  assumes run: "run_detection e pu = Inr ds"
      and dist: "distinct (map fst pu)"
      and mem: "(p, f) \<in> set pu"
  shows "(\<forall>sd. pynum_or (accuracyStdDev f) (Fl 0) = Fl sd \<longrightarrow>
            ((\<exists>d\<in>set ds. det_playerId d = p \<and> detectorType d = ZSCORE_ACCURACY) \<longleftrightarrow>
               (MIN_SAMPLES_FOR_DETECTION e \<le> int_or (accuracySampleCount f) 0
                \<and> 1 / 100 < sd
                \<and> ZSCORE_THRESHOLD e
                    < \<bar>(real_or (accuracy f) 0 - real_or (accuracyMean f) 0) / sd\<bar>))
            \<and> (\<forall>d\<in>set ds. det_playerId d = p \<and> detectorType d = ZSCORE_ACCURACY \<longrightarrow>
                  score d = \<bar>(real_or (accuracy f) 0 - real_or (accuracyMean f) 0) / sd\<bar>
                  \<and> map_of (det_features d) ''zScore''
                      = Some ((real_or (accuracy f) 0 - real_or (accuracyMean f) 0) / sd)))
         \<and> (int_or (accuracySampleCount f) 0 < MIN_SAMPLES_FOR_DETECTION e \<longrightarrow>
              (\<forall>d\<in>set ds. det_playerId d \<noteq> p))"
proof -
  from run mem obtain ds' where dp: "detect_player e p f = Inr ds'"
    using run_detection_each by blast
  have own: "{d \<in> set ds. det_playerId d = p} = set ds'"
    by (rule run_detection_of_player [OF run dist mem dp])
  then have iff: "d \<in> set ds \<and> det_playerId d = p \<longleftrightarrow> d \<in> set ds'" for d
    by blast
  have part1: "((\<exists>d\<in>set ds. det_playerId d = p \<and> detectorType d = ZSCORE_ACCURACY) \<longleftrightarrow>
               (MIN_SAMPLES_FOR_DETECTION e \<le> int_or (accuracySampleCount f) 0
                \<and> 1 / 100 < sd
                \<and> ZSCORE_THRESHOLD e
                    < \<bar>(real_or (accuracy f) 0 - real_or (accuracyMean f) 0) / sd\<bar>))
            \<and> (\<forall>d\<in>set ds. det_playerId d = p \<and> detectorType d = ZSCORE_ACCURACY \<longrightarrow>
                  score d = \<bar>(real_or (accuracy f) 0 - real_or (accuracyMean f) 0) / sd\<bar>
                  \<and> map_of (det_features d) ''zScore''
                      = Some ((real_or (accuracy f) 0 - real_or (accuracyMean f) 0) / sd))"
    if sd: "pynum_or (accuracyStdDev f) (Fl 0) = Fl sd" for sd
  proof -
    have "(\<exists>d\<in>set ds. det_playerId d = p \<and> detectorType d = ZSCORE_ACCURACY)
            \<longleftrightarrow> (\<exists>d\<in>set ds'. detectorType d = ZSCORE_ACCURACY)"
      using iff by blast
    moreover have "(\<forall>d\<in>set ds. det_playerId d = p \<and> detectorType d = ZSCORE_ACCURACY \<longrightarrow> P d)
            \<longleftrightarrow> (\<forall>d\<in>set ds'. detectorType d = ZSCORE_ACCURACY \<longrightarrow> P d)" for P
      using iff by blast
    ultimately show ?thesis
      using detect_player_zscore [OF dp sd] by simp
  qed
  have part2: "\<forall>d\<in>set ds. det_playerId d \<noteq> p"
    if "int_or (accuracySampleCount f) 0 < MIN_SAMPLES_FOR_DETECTION e"
    using detect_player_floor [OF dp that] iff by auto
  from part1 part2 show ?thesis by blast
qed

theorem zscore_detection_iff_witness:
  "\<exists>ds d. run_detection default_env [(''p1'', s5_features)] = Inr ds
     \<and> distinct (map fst [(''p1'', s5_features)])
     \<and> (''p1'', s5_features) \<in> set [(''p1'', s5_features)]
     \<and> pynum_or (accuracyStdDev s5_features) (Fl 0) = Fl (1 / 10)
     \<and> d \<in> set ds \<and> det_playerId d = ''p1'' \<and> detectorType d = ZSCORE_ACCURACY
     \<and> score d = 4 \<and> map_of (det_features d) ''zScore'' = Some 4"
proof -
  have "\<exists>ds. run_detection default_env [(''p1'', s5_features)] = Inr ds"
    by (simp add: detect_player_def s5_features_def default_env_def empty_item_def
        int_or_def real_or_def pynum_or_def Let_def)
  then obtain ds where run: "run_detection default_env [(''p1'', s5_features)] = Inr ds" ..
  have dist: "distinct (map fst [(''p1'', s5_features)])" by simp
  have mem: "(''p1'', s5_features) \<in> set [(''p1'', s5_features)]" by simp
  have sd: "pynum_or (accuracyStdDev s5_features) (Fl 0) = Fl (1 / 10)"
    by (simp add: s5_features_def empty_item_def pynum_or_def)
  from zscore_detection_iff [OF run dist mem, THEN conjunct1, rule_format, OF sd]
  have "(\<exists>d\<in>set ds. det_playerId d = ''p1'' \<and> detectorType d = ZSCORE_ACCURACY)
     \<and> (\<forall>d\<in>set ds. det_playerId d = ''p1'' \<and> detectorType d = ZSCORE_ACCURACY \<longrightarrow>
           score d = 4 \<and> map_of (det_features d) ''zScore'' = Some 4)"
    by (simp add: s5_features_def default_env_def empty_item_def int_or_def real_or_def)
  then obtain d where "d \<in> set ds" "det_playerId d = ''p1''" "detectorType d = ZSCORE_ACCURACY"
    "score d = 4" "map_of (det_features d) ''zScore'' = Some 4"
    by blast
  with run dist mem sd show ?thesis by blast
qed



subsection \<open>The heap of events\<close>

lemma same_event_refl [simp]: "same_event a a"
  by (simp add: same_event_def)

lemma same_event_trans: "same_event a b \<Longrightarrow> same_event b c \<Longrightarrow> same_event a c"
  by (simp add: same_event_def)

lemma same_event_fields:
  assumes "same_event a b"
  shows "playerId a = playerId b" and "actionType a = actionType b"
    and "metadata a = metadata b" and "owner a = owner b"
    and "eventId a = eventId b" and "timestamp a = timestamp b"
    and "sessionId a = sessionId b"
proof -
  from assms have eq: "a\<lparr>interesting_reason := None\<rparr> = b\<lparr>interesting_reason := None\<rparr>"
    by (simp add: same_event_def)
  from arg_cong [OF eq, of playerId] show "playerId a = playerId b" by simp
  from arg_cong [OF eq, of actionType] show "actionType a = actionType b" by simp
  from arg_cong [OF eq, of metadata] show "metadata a = metadata b" by simp
  from arg_cong [OF eq, of owner] show "owner a = owner b" by simp
  from arg_cong [OF eq, of eventId] show "eventId a = eventId b" by simp
  from arg_cong [OF eq, of timestamp] show "timestamp a = timestamp b" by simp
  from arg_cong [OF eq, of sessionId] show "sessionId a = sessionId b" by simp
qed

lemma same_event_derived:
  assumes "same_event a b"
  shows "action_of a = action_of b" and "coerce_metadata e a = coerce_metadata e b"
    and "player_key a = player_key b"
  using same_event_fields [OF assms]
  by (simp_all add: action_of_def coerce_metadata_def player_key_def)

lemma tag_nth:
  "tag heap i r ! j =
     (if j = i \<and> i < length heap then (heap ! i)\<lparr>interesting_reason := Some r\<rparr> else heap ! j)"
  by (cases "i < length heap") (auto simp: tag_def nth_list_update list_update_beyond)

lemma tag_length [simp]: "length (tag heap i r) = length heap"
  by (simp add: tag_def)

lemma tag_same: "same_event (tag heap i r ! j) (heap ! j)"
  by (simp add: tag_nth same_event_def)

lemma tag_keeps: "interesting_reason (heap ! j) \<noteq> None \<Longrightarrow> interesting_reason (tag heap i r ! j) \<noteq> None"
  by (simp add: tag_nth)

lemma tag_sets: "i < length heap \<Longrightarrow> interesting_reason (tag heap i r ! i) \<noteq> None"
  by (simp add: tag_nth)

text \<open>What one iteration does to the heap and to the list.\<close>

lemma process_event_error:
  "process_event e i heap t intr = (heap', Inl er) \<Longrightarrow> heap' = heap"
  by (auto simp: process_event_def Let_def split: if_splits sum.splits prod.splits)

lemma process_event_shape:
  assumes "process_event e i heap t intr = (heap', Inr (t', intr'))"
  shows "(heap' = heap \<or> (\<exists>r. heap' = tag heap i r)) \<and> (intr' = intr \<or> intr' = intr @ [i])"
  using assms
  by (auto simp: process_event_def Let_def split: if_splits sum.splits prod.splits)

lemma process_event_weapon:
  assumes "process_event e i heap t intr = (heap', Inr (t', intr'))"
      and "action_of (heap ! i) = ''WEAPON_FIRED''" and "intr' = intr @ [i]"
  shows "\<exists>r. heap' = tag heap i r"
  using assms
  by (auto simp: process_event_def Let_def ALWAYS_STORE_EVENTS_def
      split: if_splits sum.splits prod.splits)

lemma process_event_attack:
  assumes "process_event e i heap t intr = (heap', Inr (t', intr'))"
      and "action_of (heap ! i) = ''PLAYER_ATTACK''"
      and "attack_damage (coerce_metadata e (heap ! i)) = Inr d"
      and "HIGH_DAMAGE_THRESHOLD < d"
  shows "(\<exists>r. heap' = tag heap i r) \<and> intr' = intr @ [i]"
  using assms
  by (auto simp: process_event_def Let_def ALWAYS_STORE_EVENTS_def
      split: if_splits sum.splits prod.splits)

lemma process_event_frame:
  assumes "process_event e i heap t intr = (heap', r)"
  shows "length heap' = length heap"
    and "same_event (heap' ! j) (heap ! j)"
    and "interesting_reason (heap ! j) \<noteq> None \<Longrightarrow> interesting_reason (heap' ! j) \<noteq> None"
proof -
  have "heap' = heap \<or> (\<exists>x. heap' = tag heap i x)"
  proof (cases r)
    case (Inl er)
    with assms show ?thesis by (simp add: process_event_error)
  next
    case (Inr p)
    with assms show ?thesis by (cases p) (auto dest: process_event_shape)
  qed
  then consider "heap' = heap" | x where "heap' = tag heap i x" by blast
  note alt = this
  show "length heap' = length heap"
    by (rule alt) simp_all
  show "same_event (heap' ! j) (heap ! j)"
    by (rule alt) (simp_all add: tag_same)
  show "interesting_reason (heap' ! j) \<noteq> None" if "interesting_reason (heap ! j) \<noteq> None"
    using that by (rule_tac alt) (simp_all add: tag_keeps)
qed

lemma scan_events_frame:
  assumes "scan_events e refs heap t intr = (heap', r)"
  shows "length heap' = length heap \<and> same_event (heap' ! j) (heap ! j)
       \<and> (interesting_reason (heap ! j) \<noteq> None \<longrightarrow> interesting_reason (heap' ! j) \<noteq> None)"
  using assms
proof (induction refs arbitrary: heap t intr)
  case Nil
  then show ?case by simp
next
  case (Cons i refs)
  obtain h1 r1 where pe: "process_event e i heap t intr = (h1, r1)"
    by (cases "process_event e i heap t intr")
  note fr = process_event_frame [OF pe]
  show ?case
  proof (cases r1)
    case (Inl er)
    with Cons.prems pe have "heap' = h1" by simp
    with fr show ?thesis by simp
  next
    case (Inr p)
    obtain t1 intr1 where p: "p = (t1, intr1)" by (cases p)
    from Cons.prems pe Inr p have "scan_events e refs h1 t1 intr1 = (heap', r)" by simp
    from Cons.IH [OF this] fr show ?thesis
      by (metis same_event_trans)
  qed
qed

lemma scan_events_tags:
  assumes "scan_events e refs heap t intr = (heap', Inr (t', intr'))"
  shows "(\<exists>sub. intr' = intr @ sub \<and> set sub \<subseteq> set refs
            \<and> (\<forall>i\<in>set sub. i < length heap \<and> action_of (heap ! i) = ''WEAPON_FIRED''
                  \<longrightarrow> interesting_reason (heap' ! i) \<noteq> None))
       \<and> (\<forall>i\<in>set refs. \<forall>d. i < length heap \<and> action_of (heap ! i) = ''PLAYER_ATTACK''
              \<and> attack_damage (coerce_metadata e (heap ! i)) = Inr d
              \<and> HIGH_DAMAGE_THRESHOLD < d
              \<longrightarrow> interesting_reason (heap' ! i) \<noteq> None \<and> i \<in> set intr')"
  using assms
proof (induction refs arbitrary: heap t intr)
  case Nil
  then show ?case by simp
next
  case (Cons i refs)
  from Cons.prems obtain h1 t1 intr1 where pe: "process_event e i heap t intr = (h1, Inr (t1, intr1))"
    and sc: "scan_events e refs h1 t1 intr1 = (heap', Inr (t', intr'))"
    by (auto split: prod.splits sum.splits)
  note fr1 = process_event_frame [OF pe]
  note fr2 = scan_events_frame [OF sc]
  note sh = process_event_shape [OF pe]
  from Cons.IH [OF sc] obtain sub where sub: "intr' = intr1 @ sub" "set sub \<subseteq> set refs"
    and subw: "\<forall>j\<in>set sub. j < length h1 \<and> action_of (h1 ! j) = ''WEAPON_FIRED''
                  \<longrightarrow> interesting_reason (heap' ! j) \<noteq> None"
    and att: "\<forall>j\<in>set refs. \<forall>d. j < length h1 \<and> action_of (h1 ! j) = ''PLAYER_ATTACK''
              \<and> attack_damage (coerce_metadata e (h1 ! j)) = Inr d
              \<and> HIGH_DAMAGE_THRESHOLD < d
              \<longrightarrow> interesting_reason (heap' ! j) \<noteq> None \<and> j \<in> set intr'"
    by blast
  have act: "action_of (h1 ! j) = action_of (heap ! j)"
    and md: "coerce_metadata e (h1 ! j) = coerce_metadata e (heap ! j)" for j
    using fr1(2) [of j] by (simp_all add: same_event_derived)
  have keep: "interesting_reason (h1 ! j) \<noteq> None \<Longrightarrow> interesting_reason (heap' ! j) \<noteq> None" for j
    using fr2 [of j] by simp
  have first: "\<exists>sub'. intr' = intr @ sub' \<and> set sub' \<subseteq> set (i # refs)
            \<and> (\<forall>j\<in>set sub'. j < length heap \<and> action_of (heap ! j) = ''WEAPON_FIRED''
                  \<longrightarrow> interesting_reason (heap' ! j) \<noteq> None)"
  proof (cases "intr1 = intr")
    case True
    with sub subw act fr1(1) show ?thesis by auto
  next
    case False
    with sh have i1: "intr1 = intr @ [i]" by simp
    have "interesting_reason (heap' ! i) \<noteq> None"
      if "i < length heap" and "action_of (heap ! i) = ''WEAPON_FIRED''"
    proof -
      from process_event_weapon [OF pe that(2) i1] obtain x where "h1 = tag heap i x" ..
      with that(1) have "interesting_reason (h1 ! i) \<noteq> None" by (simp add: tag_sets)
      then show ?thesis by (rule keep)
    qed
    with sub subw act fr1(1) i1 show ?thesis
      by (intro exI [of _ "i # sub"]) auto
  qed
  have second: "interesting_reason (heap' ! j) \<noteq> None \<and> j \<in> set intr'"
    if j: "j \<in> set (i # refs)" "j < length heap" "action_of (heap ! j) = ''PLAYER_ATTACK''"
      "attack_damage (coerce_metadata e (heap ! j)) = Inr d" "HIGH_DAMAGE_THRESHOLD < d" for j d
  proof (cases "j \<in> set refs")
    case True
    with att j act md fr1(1) show ?thesis by simp
  next
    case False
    with j(1) have ji: "j = i" by simp
    from process_event_attack [OF pe j(3) [unfolded ji] j(4) [unfolded ji] j(5)]
    obtain x where "h1 = tag heap i x" and i1: "intr1 = intr @ [i]" by blast
    with j(2) ji have "interesting_reason (h1 ! i) \<noteq> None" by (simp add: tag_sets)
    then have "interesting_reason (heap' ! i) \<noteq> None" by (rule keep)
    with sub i1 ji show ?thesis by simp
  qed
  from first second show ?case by blast
qed


lemma event_row_has_keys: "map fst (event_row e own n evt) = event_row_keys"
  by (simp add: event_row_def event_row_keys_def Let_def)

lemma store_events_from_rows:
  assumes "store_events_from e own heap n refs (k, s) = (k', s')"
  shows "\<exists>rows. events_table s' = events_table s @ rows
           \<and> (\<forall>row\<in>set rows. map fst row = event_row_keys)"
  using assms
proof (induction refs arbitrary: n k s)
  case Nil
  then show ?case by simp
next
  case (Cons r refs)
  show ?case
  proof (cases "event_put_fails e n")
    case True
    with Cons.prems
    have "store_events_from e own heap (Suc n) refs (k, logged BatchPutEvent s) = (k', s')"
      by (simp add: Let_def)
    from Cons.IH [OF this] show ?thesis by (simp add: logged_def)
  next
    case False
    let ?s1 = "logged BatchPutEvent s"
    let ?s2 = "?s1\<lparr>events_table := events_table ?s1 @ [event_row e own n (heap ! r)]\<rparr>"
    from False Cons.prems
    have "store_events_from e own heap (Suc n) refs (k + 1, ?s2) = (k', s')"
      by (simp add: Let_def)
    from Cons.IH [OF this] obtain rows where
      "events_table s' = events_table ?s2 @ rows" "\<forall>row\<in>set rows. map fst row = event_row_keys"
      by blast
    then show ?thesis
      by (intro exI [of _ "event_row e own n (heap ! r) # rows"])
        (simp add: logged_def event_row_has_keys)
  qed
qed

text \<open>
  C9. Let \<^verbatim>\<open>extract_features\<close> return for the events \<open>refs\<close> of the heap, with the list
  \<open>intr\<close> of interesting events, and let \<open>i\<close> be one of the events. If it is a
  \<^verbatim>\<open>WEAPON_FIRED\<close> event in \<open>intr\<close>, or a \<^verbatim>\<open>PLAYER_ATTACK\<close> event whose damage is above
  \<^verbatim>\<open>HIGH_DAMAGE_THRESHOLD\<close>, then the caller's event itself holds the key
  \<^verbatim>\<open>_interesting_reason\<close> after the call. Every item that \<^verbatim>\<open>store_events\<close> then puts
  into the events table has exactly the ten keys \<open>event_row_keys\<close>, and so not that one.
\<close>

theorem reason_written_not_persisted:
  assumes ex: "extract_features e heap refs prior = (heap', Inr (f, intr))"
      and i: "i \<in> set refs" "i < length heap"
  shows "(action_of (heap ! i) = ''WEAPON_FIRED'' \<and> i \<in> set intr
            \<longrightarrow> interesting_reason (heap' ! i) \<noteq> None)
       \<and> (action_of (heap ! i) = ''PLAYER_ATTACK''
            \<and> (\<exists>d. attack_damage (coerce_metadata e (heap ! i)) = Inr d
                    \<and> HIGH_DAMAGE_THRESHOLD < d)
            \<longrightarrow> interesting_reason (heap' ! i) \<noteq> None)
       \<and> (\<forall>row. row \<in> set (events_table (snd (store_events e s heap' stored own)))
                \<and> row \<notin> set (events_table s)
            \<longrightarrow> map fst row = event_row_keys \<and> ''_interesting_reason'' \<notin> set (map fst row))"
proof -
  from ex obtain t where sc: "scan_events e refs heap tally0 [] = (heap', Inr (t, intr))"
    by (auto simp: extract_features_def split: prod.splits sum.splits)
  note tags = scan_events_tags [OF sc]
  from tags have w: "\<forall>j\<in>set intr. j < length heap \<and> action_of (heap ! j) = ''WEAPON_FIRED''
                  \<longrightarrow> interesting_reason (heap' ! j) \<noteq> None"
    by auto
  from tags i have a: "action_of (heap ! i) = ''PLAYER_ATTACK''
              \<and> attack_damage (coerce_metadata e (heap ! i)) = Inr d
              \<and> HIGH_DAMAGE_THRESHOLD < d
              \<longrightarrow> interesting_reason (heap' ! i) \<noteq> None" for d
    by blast
  obtain k' s' where st: "store_events e s heap' stored own = (k', s')"
    by (cases "store_events e s heap' stored own")
  then have "store_events_from e own heap' 0 stored (0, s) = (k', s')"
    by (simp add: store_events_def)
  from store_events_from_rows [OF this] obtain rows where
    rows: "events_table s' = events_table s @ rows" "\<forall>row\<in>set rows. map fst row = event_row_keys"
    by blast
  have "map fst row = event_row_keys \<and> ''_interesting_reason'' \<notin> set (map fst row)"
    if "row \<in> set (events_table (snd (store_events e s heap' stored own)))"
      and "row \<notin> set (events_table s)" for row
  proof -
    from that st rows have "map fst row = event_row_keys" by auto
    then show ?thesis by (simp add: event_row_keys_def)
  qed
  with w a i show ?thesis by blast
qed

theorem reason_written_not_persisted_witness:
  "\<exists>h' f row. extract_features default_env welford_batch1 [0] empty_item = (h', Inr (f, [0]))
      \<and> 0 \<in> set [0::nat] \<and> 0 < length welford_batch1
      \<and> action_of (welford_batch1 ! 0) = ''WEAPON_FIRED''
      \<and> interesting_reason (h' ! 0) = Some (high_accuracy (8 / 10))
      \<and> events_table (snd (store_events default_env empty_store h' [0] ''t1'')) = [row]
      \<and> map fst row = event_row_keys"
proof -
  define h' where "h' = [(fired ''p1'' 10 8)\<lparr>interesting_reason := Some (high_accuracy (8 / 10))\<rparr>]"
  have "\<exists>f. extract_features default_env welford_batch1 [0] empty_item = (h', Inr (f, [0]))"
    by (simp add: h'_def welford_batch1_def model_defs)
  then obtain f where ex: "extract_features default_env welford_batch1 [0] empty_item
       = (h', Inr (f, [0]))" ..
  have i: "0 \<in> set [0::nat]" "0 < length welford_batch1"
    by (simp_all add: welford_batch1_def)
  have act: "action_of (welford_batch1 ! 0) = ''WEAPON_FIRED''"
    by (simp add: welford_batch1_def fired_def mk_event_def action_of_def)
  have r: "interesting_reason (h' ! 0) = Some (high_accuracy (8 / 10))"
    by (simp add: h'_def)
  have "\<exists>row. events_table (snd (store_events default_env empty_store h' [0] ''t1'')) = [row]"
    by (simp add: store_events_def Let_def logged_def default_env_def empty_store_def)
  then obtain row where
    row: "events_table (snd (store_events default_env empty_store h' [0] ''t1'')) = [row]" ..
  from reason_written_not_persisted [OF ex i, of empty_store "[0]" "''t1''"] row
  have "map fst row = event_row_keys"
    by (simp add: empty_store_def)
  with ex i act r row show ?thesis by blast
qed

subsection \<open>The loop over the players\<close>










lemma extract_features_stddev:
  assumes "extract_features e heap refs prior = (heap', Inr (f, pint))"
  shows "accuracyStdDev f \<noteq> None"
proof -
  from assms obtain t where "merge_totals t prior = Inr f"
    by (auto simp: extract_features_def split: prod.splits sum.splits)
  then obtain f2 f3 where "running_stats t prior f2 = Inr f3"
    and "f = f3\<lparr>risk_score := Some (risk_of f3)\<rparr>"
    using merge_totals_running by blast
  then show ?thesis
    by (auto simp: running_stats_def Let_def split: if_splits sum.splits)
qed

text \<open>The four ways through the body of the loop over the players.\<close>

lemma update_player_cases:
  fixes e own p refs u
  defines "k \<equiv> format_pk own p"
  defines "existing \<equiv> (case players (st u) (k, ''PROFILE'') of None \<Rightarrow> empty_item | Some it \<Rightarrow> it)"
  defines "u' \<equiv> update_player e own (p, refs) u"
  obtains
    (get_failed) "get_fails e k ''PROFILE''" "hp u' = hp u"
      "interesting_events u' = interesting_events u" "player_updates u' = player_updates u"
      "players (st u') = players (st u)"
  | (extract_failed) h' er where "\<not> get_fails e k ''PROFILE''"
      "extract_features e (hp u) refs existing = (h', Inl er)" "hp u' = h'"
      "interesting_events u' = interesting_events u" "player_updates u' = player_updates u"
      "players (st u') = players (st u)"
  | (put_failed) h' f pint where "\<not> get_fails e k ''PROFILE''"
      "extract_features e (hp u) refs existing = (h', Inr (f, pint))" "hp u' = h'"
      "interesting_events u' = interesting_events u @ pint"
      "player_updates u' = player_updates u"
      "put_fails e k ''PROFILE'' \<or> put_fails e k ''FEATURES'' \<or> accuracyStdDev f = Some Cplx"
  | (updated) h' f pint where "\<not> get_fails e k ''PROFILE''"
      "extract_features e (hp u) refs existing = (h', Inr (f, pint))" "hp u' = h'"
      "interesting_events u' = interesting_events u @ pint"
      "player_updates u' = dict_set p f (player_updates u)"
      "\<not> put_fails e k ''PROFILE''" "\<not> put_fails e k ''FEATURES''"
      "accuracyStdDev f \<noteq> Some Cplx"
proof (cases "get_fails e k ''PROFILE''")
  case True
  then show ?thesis
    by (intro get_failed) (simp_all add: u'_def update_player_def k_def Let_def logged_def)
next
  case nf: False
  obtain h' r where ex: "extract_features e (hp u) refs existing = (h', r)"
    by (cases "extract_features e (hp u) refs existing")
  have ex': "extract_features e (hp u) refs
      (case players (logged (GetItem (format_pk own p) ''PROFILE'') (st u))
              (format_pk own p, ''PROFILE'') of None \<Rightarrow> empty_item | Some it \<Rightarrow> it) = (h', r)"
    using ex by (simp add: existing_def k_def logged_def)
  show ?thesis
  proof (cases r)
    case (Inl er)
    with nf ex ex' show ?thesis
      by (intro extract_failed [of h' er])
        (simp_all add: u'_def update_player_def k_def [symmetric] Let_def logged_def)
  next
    case (Inr fp)
    obtain f pint where fp: "fp = (f, pint)" by (cases fp)
    show ?thesis
    proof (cases "put_fails e k ''PROFILE'' \<or> put_fails e k ''FEATURES''
                    \<or> accuracyStdDev f = Some Cplx")
      case True
      with nf ex ex' Inr fp show ?thesis
        by (intro put_failed [of h' f pint])
          (auto simp: u'_def update_player_def k_def [symmetric] Let_def logged_def put_item_def
            empty_item_def)
    next
      case False
      with nf ex ex' Inr fp show ?thesis
        by (intro updated [of h' f pint])
          (auto simp: u'_def update_player_def k_def [symmetric] Let_def logged_def put_item_def
            empty_item_def)
    qed
  qed
qed

lemma dict_set_keys: "fst ` set (dict_set k v d) = insert k (fst ` set d)"
proof (induction d)
  case Nil
  then show ?case by simp
next
  case (Cons a d)
  then show ?case by (cases a) (simp add: insert_commute)
qed

lemma dict_set_entries: "set (dict_set k v d) \<subseteq> insert (k, v) (set d)"
  by (induction d) (auto split: if_splits)

lemma dict_set_distinct: "distinct (map fst d) \<Longrightarrow> distinct (map fst (dict_set k v d))"
proof (induction d)
  case Nil
  then show ?case by simp
next
  case (Cons a d)
  have "fst ` set (dict_set k v d) = insert k (fst ` set d)" by (rule dict_set_keys)
  with Cons show ?case by (cases a) auto
qed



lemma update_player_updates:
  assumes "(q, f) \<in> set (player_updates (update_player e own (p, refs) u))"
  shows "(q, f) \<in> set (player_updates u)
       \<or> (q = p \<and> accuracyStdDev f \<noteq> Some Cplx
          \<and> \<not> get_fails e (format_pk own q) ''PROFILE''
          \<and> \<not> put_fails e (format_pk own q) ''PROFILE''
          \<and> \<not> put_fails e (format_pk own q) ''FEATURES'')"
  using assms
proof (cases rule: update_player_cases [where e = e and own = own and p = p and refs = refs and u = u])
  case (updated h' f' pint)
  with assms dict_set_entries [of p f' "player_updates u"] show ?thesis by auto
qed auto

lemma update_player_distinct:
  assumes "distinct (map fst (player_updates u))"
  shows "distinct (map fst (player_updates (update_player e own (p, refs) u)))"
  using assms
  by (cases rule: update_player_cases [where e = e and own = own and p = p and refs = refs and u = u]) (auto simp: dict_set_distinct)


lemma players_loop_updates:
  assumes "(q, f) \<in> set (player_updates (foldl (\<lambda>u grp. update_player e own grp u) u0 gs))"
  shows "(q, f) \<in> set (player_updates u0)
       \<or> (accuracyStdDev f \<noteq> Some Cplx
          \<and> \<not> get_fails e (format_pk own q) ''PROFILE''
          \<and> \<not> put_fails e (format_pk own q) ''PROFILE''
          \<and> \<not> put_fails e (format_pk own q) ''FEATURES'')"
  using assms
proof (induction gs arbitrary: u0)
  case Nil
  then show ?case by simp
next
  case (Cons g gs)
  obtain p refs where g: "g = (p, refs)" by (cases g)
  from Cons.IH [of "update_player e own g u0"] Cons.prems
  have "(q, f) \<in> set (player_updates (update_player e own (p, refs) u0))
       \<or> (accuracyStdDev f \<noteq> Some Cplx
          \<and> \<not> get_fails e (format_pk own q) ''PROFILE''
          \<and> \<not> put_fails e (format_pk own q) ''PROFILE''
          \<and> \<not> put_fails e (format_pk own q) ''FEATURES'')"
    by (simp add: g)
  then show ?case using update_player_updates [of q f e own p refs u0] by blast
qed

lemma players_loop_distinct:
  assumes "distinct (map fst (player_updates u0))"
  shows "distinct (map fst (player_updates (foldl (\<lambda>u grp. update_player e own grp u) u0 gs)))"
  using assms
proof (induction gs arbitrary: u0)
  case Nil
  then show ?case by simp
next
  case (Cons g gs)
  obtain p refs where g: "g = (p, refs)" by (cases g)
  from Cons.prems have "distinct (map fst (player_updates (update_player e own g u0)))"
    unfolding g by (rule update_player_distinct)
  from Cons.IH [OF this] show ?case by simp
qed


lemma update_player_states_updates:
  assumes "(q, f) \<in> set (player_updates (update_player_states e s events own))"
  shows "accuracyStdDev f \<noteq> Some Cplx
          \<and> \<not> get_fails e (format_pk own q) ''PROFILE''
          \<and> \<not> put_fails e (format_pk own q) ''PROFILE''
          \<and> \<not> put_fails e (format_pk own q) ''FEATURES''"
  using players_loop_updates
    [of q f e own "\<lparr>st = s, hp = events, player_updates = [], interesting_events = []\<rparr>"
        "group_events events"] assms
  by (simp add: update_player_states_def)

lemma update_player_states_distinct:
  "distinct (map fst (player_updates (update_player_states e s events own)))"
  using players_loop_distinct
    [of "\<lparr>st = s, hp = events, player_updates = [], interesting_events = []\<rparr>" e own
        "group_events events"]
  by (simp add: update_player_states_def)




subsection \<open>Store failures in the loop over the players\<close>

lemma run_detection_ids:
  assumes "run_detection e pu = Inr ds" and "d \<in> set ds"
  shows "det_playerId d \<in> fst ` set pu"
proof -
  from assms obtain p f ds' where "(p, f) \<in> set pu" "detect_player e p f = Inr ds'" "d \<in> set ds'"
    by (auto simp: run_detection_member)
  then show ?thesis using detect_player_id by force
qed

text \<open>
  C10. In the body of the loop for player \<open>p\<close>: if the read of the prior state succeeds,
  \<^verbatim>\<open>extract_features\<close> returns the interesting events \<open>pint\<close>, and the put of the PROFILE or
  of the FEATURES record raises, then \<open>pint\<close> has been appended to the interesting list of
  the batch and \<^verbatim>\<open>player_updates\<close> is unchanged. For the whole batch, a player whose put
  raises is not a key of \<^verbatim>\<open>player_updates\<close>, and no detection returned for the batch names
  that player. If the read of the prior state raises, the interesting list is unchanged
  as well.
\<close>

theorem put_failure_keeps_interesting:
  "(\<not> get_fails e (format_pk own p) ''PROFILE''
     \<and> extract_features e (hp u) refs
          (case players (st u) (format_pk own p, ''PROFILE'') of
             None \<Rightarrow> empty_item | Some it \<Rightarrow> it) = (h', Inr (f, pint))
     \<and> (put_fails e (format_pk own p) ''PROFILE'' \<or> put_fails e (format_pk own p) ''FEATURES'')
     \<longrightarrow> interesting_events (update_player e own (p, refs) u) = interesting_events u @ pint
         \<and> player_updates (update_player e own (p, refs) u) = player_updates u)
   \<and> (put_fails e (format_pk own p) ''PROFILE'' \<or> put_fails e (format_pk own p) ''FEATURES''
     \<longrightarrow> p \<notin> fst ` set (player_updates (update_player_states e s events own))
         \<and> (\<forall>ds. run_detection e (player_updates (update_player_states e s events own)) = Inr ds
               \<longrightarrow> (\<forall>d\<in>set ds. det_playerId d \<noteq> p)))
   \<and> (get_fails e (format_pk own p) ''PROFILE''
     \<longrightarrow> interesting_events (update_player e own (p, refs) u) = interesting_events u
         \<and> player_updates (update_player e own (p, refs) u) = player_updates u)"
proof -
  have a: "interesting_events (update_player e own (p, refs) u) = interesting_events u @ pint
         \<and> player_updates (update_player e own (p, refs) u) = player_updates u"
    if "\<not> get_fails e (format_pk own p) ''PROFILE''"
      and "extract_features e (hp u) refs
          (case players (st u) (format_pk own p, ''PROFILE'') of
             None \<Rightarrow> empty_item | Some it \<Rightarrow> it) = (h', Inr (f, pint))"
      and "put_fails e (format_pk own p) ''PROFILE'' \<or> put_fails e (format_pk own p) ''FEATURES''"
    using that
    by (cases rule: update_player_cases [where e = e and own = own and p = p and refs = refs and u = u])
      auto
  have b: "p \<notin> fst ` set (player_updates (update_player_states e s events own))"
    if "put_fails e (format_pk own p) ''PROFILE'' \<or> put_fails e (format_pk own p) ''FEATURES''"
    using that update_player_states_updates [of p _ e s events own] by force
  have c: "det_playerId d \<noteq> p"
    if "put_fails e (format_pk own p) ''PROFILE'' \<or> put_fails e (format_pk own p) ''FEATURES''"
      and "run_detection e (player_updates (update_player_states e s events own)) = Inr ds"
      and "d \<in> set ds" for ds d
    using run_detection_ids [OF that(2,3)] b [OF that(1)] by auto
  have d: "interesting_events (update_player e own (p, refs) u) = interesting_events u
         \<and> player_updates (update_player e own (p, refs) u) = player_updates u"
    if "get_fails e (format_pk own p) ''PROFILE''"
    using that
    by (cases rule: update_player_cases [where e = e and own = own and p = p and refs = refs and u = u])
      auto
  from a b c d show ?thesis by blast
qed

theorem put_failure_keeps_interesting_witness:
  "\<exists>h' f. \<not> get_fails features_put_fails (format_pk ''t1'' ''p1'') ''PROFILE''
     \<and> extract_features features_put_fails (hp (start_state welford_batch1)) [0]
          (case players (st (start_state welford_batch1)) (format_pk ''t1'' ''p1'', ''PROFILE'') of
             None \<Rightarrow> empty_item | Some it \<Rightarrow> it) = (h', Inr (f, [0]))
     \<and> put_fails features_put_fails (format_pk ''t1'' ''p1'') ''FEATURES''
     \<and> interesting_events (update_player features_put_fails ''t1'' (''p1'', [0])
          (start_state welford_batch1)) = [0]
     \<and> player_updates (update_player features_put_fails ''t1'' (''p1'', [0])
          (start_state welford_batch1)) = []
     \<and> ''p1'' \<notin> fst ` set (player_updates
          (update_player_states features_put_fails empty_store welford_batch1 ''t1''))"
proof -
  let ?e = features_put_fails
  let ?u = "start_state welford_batch1"
  define h' where "h' = [(fired ''p1'' 10 8)\<lparr>interesting_reason := Some (high_accuracy (8 / 10))\<rparr>]"
  have g: "\<not> get_fails ?e (format_pk ''t1'' ''p1'') ''PROFILE''"
    by (simp add: features_put_fails_def default_env_def)
  have "\<exists>f. extract_features ?e (hp ?u) [0]
          (case players (st ?u) (format_pk ''t1'' ''p1'', ''PROFILE'') of
             None \<Rightarrow> empty_item | Some it \<Rightarrow> it) = (h', Inr (f, [0]))"
    by (simp add: h'_def start_state_def features_put_fails_def welford_batch1_def model_defs)
  then obtain f where ex: "extract_features ?e (hp ?u) [0]
          (case players (st ?u) (format_pk ''t1'' ''p1'', ''PROFILE'') of
             None \<Rightarrow> empty_item | Some it \<Rightarrow> it) = (h', Inr (f, [0]))" ..
  have pf: "put_fails ?e (format_pk ''t1'' ''p1'') ''FEATURES''"
    by (simp add: features_put_fails_def default_env_def)
  note inst = put_failure_keeps_interesting
    [of ?e "''t1''" "''p1''" ?u "[0]" h' f "[0]" empty_store welford_batch1]
  from inst g ex pf
  have "interesting_events (update_player ?e ''t1'' (''p1'', [0]) ?u) = interesting_events ?u @ [0]
      \<and> player_updates (update_player ?e ''t1'' (''p1'', [0]) ?u) = player_updates ?u"
    by blast
  moreover from inst pf
  have "''p1'' \<notin> fst ` set (player_updates (update_player_states ?e empty_store welford_batch1 ''t1''))"
    by blast
  ultimately show ?thesis using g ex pf by (auto simp: start_state_def)
qed

subsection \<open>The feedback of detections into the interesting events\<close>











subsection \<open>Metadata that is not a mapping\<close>









subsection \<open>The order of the interesting events\<close>




end
